theory Spec2Isabelle
  imports
    Complex_Main
    "HOL-Library.Multiset"
    "HOL-Library.Product_Lexorder"
begin

section \<open>Python values\<close>

text \<open>
  A Python \<open>str\<close> is a sequence of Unicode code points, so \<open>len\<close>, slicing and
  emptiness are those of the list. Literals of the source are written \<open>lit ''...''\<close>;
  a character outside ASCII is given by its code point.
\<close>

type_synonym pystr = "nat list"

abbreviation lit :: "string \<Rightarrow> pystr" where
  "lit s \<equiv> map of_char s"

text \<open>\<open>sub in s\<close> on strings: \<open>sub\<close> occurs in \<open>s\<close> as a contiguous run.\<close>

fun startswith :: "pystr \<Rightarrow> pystr \<Rightarrow> bool" where
  "startswith s [] = True"
| "startswith [] (p # ps) = False"
| "startswith (c # cs) (p # ps) = (c = p \<and> startswith cs ps)"

fun str_contains :: "pystr \<Rightarrow> pystr \<Rightarrow> bool" where
  "str_contains [] sub = (sub = [])"
| "str_contains (c # cs) sub = (startswith (c # cs) sub \<or> str_contains cs sub)"

text \<open>
  A finite float is modelled by the rational number it denotes; comparisons of floats
  are then the comparisons of these numbers.
\<close>

type_synonym pyfloat = rat

text \<open>
  The exceptions that the modelled code raises, catches or lets through, each with the
  text that \<open>str(e)\<close> gives. \<open>ConnectionError\<close> stands for the builtin class and its
  subclasses, \<open>OSError\<close> for the other subclasses of that class, \<open>ReError\<close> for
  \<open>re.error\<close>, and \<open>OtherException\<close> for every other subclass of \<open>Exception\<close>.
\<close>

datatype exn =
    ResponseError pystr
  | ConnectionError pystr
  | OllamaNotRunningError pystr
  | OSError pystr
  | OverflowError pystr
  | ReError pystr
  | ZeroDivisionError pystr
  | OtherException pystr

text \<open>
  A generator that ends: it yields a value and goes on, returns (\<open>Stop\<close>), or raises.
\<close>

datatype 'a gen = Stop | Raise exn | Yield 'a "'a gen"

text \<open>The generator that yields the elements of a list and then behaves as \<open>g\<close>.\<close>

abbreviation yields :: "'a list \<Rightarrow> 'a gen \<Rightarrow> 'a gen" where
  "yields xs g \<equiv> foldr Yield xs g"

section \<open>Schemas (models/schemas.py)\<close>

record model_parameters =
  temperature :: pyfloat
  top_p :: pyfloat
  max_tokens :: "int option"

text \<open>
  One entry of a pydantic \<open>ValidationError\<close>: the field and the constraint that its
  value breaks.
\<close>

datatype constraint = GreaterThanEqual | LessThanEqual

type_synonym validation_error = "(string \<times> constraint) list"

definition check_ge :: "string \<Rightarrow> 'a::linorder \<Rightarrow> 'a \<Rightarrow> validation_error" where
  "check_ge field bound v = (if bound \<le> v then [] else [(field, GreaterThanEqual)])"

definition check_le :: "string \<Rightarrow> 'a::linorder \<Rightarrow> 'a \<Rightarrow> validation_error" where
  "check_le field bound v = (if v \<le> bound then [] else [(field, LessThanEqual)])"

text \<open>
  \<open>ModelParameters(temperature=t, top_p=p, max_tokens=m)\<close> with the constraints of the
  three \<open>Field\<close> declarations: \<open>ge=0.0, le=2.0\<close>; \<open>ge=0.0, le=1.0\<close>; \<open>ge=1\<close> on a
  value that may be \<open>None\<close>. Validation collects the errors of all fields and raises
  when there is one; otherwise the object holds the values as given.
\<close>

definition ModelParameters ::
  "pyfloat \<Rightarrow> pyfloat \<Rightarrow> int option \<Rightarrow> validation_error + model_parameters" where
  "ModelParameters t p m =
     (let errors =
            check_ge ''temperature'' 0 t @ check_le ''temperature'' 2 t
          @ check_ge ''top_p'' 0 p @ check_le ''top_p'' 1 p
          @ (case m of None \<Rightarrow> [] | Some n \<Rightarrow> check_ge ''max_tokens'' 1 n)
      in if errors = []
         then Inr \<lparr>temperature = t, top_p = p, max_tokens = m\<rparr>
         else Inl errors)"

section \<open>Chat streaming (services/ollama\_service.py)\<close>

text \<open>
  A fragment of the daemon's streamed answer, \<open>{"message": {"content": "..."}}\<close>. Either
  key may be absent; \<open>None\<close> for the content also stands for a present \<open>null\<close>, which
  the truth test of the source treats like the empty string.
\<close>

datatype message_dict = Message "pystr option"

datatype chunk = Chunk "message_dict option"

text \<open>\<open>chunk.get("message", {}).get("content", "")\<close>\<close>

fun chunk_content :: "chunk \<Rightarrow> pystr" where
  "chunk_content (Chunk None) = []"
| "chunk_content (Chunk (Some (Message None))) = []"
| "chunk_content (Chunk (Some (Message (Some c)))) = c"

datatype option_value = FloatValue pyfloat | IntValue int

type_synonym options = "string \<rightharpoonup> option_value"

record chat_request =
  req_model :: pystr
  req_messages :: "(string \<times> pystr) list list"
  req_stream :: bool
  req_options :: options

text \<open>
  The \<open>options\<close> dict. \<open>if params.max_tokens:\<close> is a truth test: \<open>None\<close> and \<open>0\<close>
  both leave the key out.
\<close>

definition chat_options :: "model_parameters \<Rightarrow> options" where
  "chat_options params =
     (let options = [''temperature'' \<mapsto> FloatValue (temperature params),
                     ''top_p'' \<mapsto> FloatValue (top_p params)]
      in case max_tokens params of
           None \<Rightarrow> options
         | Some n \<Rightarrow> if n \<noteq> 0 then options(''num_predict'' \<mapsto> IntValue n) else options)"

definition embedding_error_msg :: "pystr \<Rightarrow> pystr" where
  "embedding_error_msg model =
     [0x26A0, 0xFE0F] @ lit '' **Error:** The model `'' @ model
     @ lit ''` is an embedding model and cannot be used for chat.'' @ [10, 10]
     @ lit ''**Embedding models** are designed for generating text embeddings (vector representations), ''
     @ lit ''not for conversational responses.'' @ [10, 10]
     @ lit ''**Solution:** Please select a chat model from the settings, such as:'' @ [10]
     @ lit ''- llama3'' @ [10]
     @ lit ''- mistral'' @ [10]
     @ lit ''- gemma'' @ [10]"

text \<open>The three \<open>except\<close> clauses, in the order of the source.\<close>

fun chat_stream_except :: "pystr \<Rightarrow> exn \<Rightarrow> pystr gen" where
  "chat_stream_except model (ResponseError e) =
     (if str_contains e (lit ''does not support chat'')
      then Yield (embedding_error_msg model) Stop
      else Yield (lit ''**Error:** '' @ e) Stop)"
| "chat_stream_except model (ConnectionError e) =
     Raise (OllamaNotRunningError (lit ''Ollama is not running. Start it with: ollama serve''))"
| "chat_stream_except model (OllamaNotRunningError e) = Yield (lit ''**Error:** '' @ e) Stop"
| "chat_stream_except model (OSError e) = Yield (lit ''**Error:** '' @ e) Stop"
| "chat_stream_except model (OverflowError e) = Yield (lit ''**Error:** '' @ e) Stop"
| "chat_stream_except model (ReError e) = Yield (lit ''**Error:** '' @ e) Stop"
| "chat_stream_except model (ZeroDivisionError e) = Yield (lit ''**Error:** '' @ e) Stop"
| "chat_stream_except model (OtherException e) = Yield (lit ''**Error:** '' @ e) Stop"

text \<open>
  The \<open>for chunk in ollama.chat(...)\<close> loop inside the \<open>try\<close>: the daemon's generator
  is consumed fragment by fragment; when it raises, the handler takes over.
\<close>

fun chat_stream_loop :: "pystr \<Rightarrow> chunk gen \<Rightarrow> pystr gen" where
  "chat_stream_loop model Stop = Stop"
| "chat_stream_loop model (Raise e) = chat_stream_except model e"
| "chat_stream_loop model (Yield chunk rest) =
     (let content = chunk_content chunk
      in if content \<noteq> [] then Yield content (chat_stream_loop model rest)
         else chat_stream_loop model rest)"

text \<open>The arguments of the call \<open>ollama.chat(model=..., messages=..., stream=True, options=...)\<close>.\<close>

definition chat_call :: "(string \<times> pystr) list list \<Rightarrow> pystr \<Rightarrow> model_parameters \<Rightarrow> chat_request" where
  "chat_call messages model params =
     \<lparr>req_model = model, req_messages = messages, req_stream = True,
      req_options = chat_options params\<rparr>"

text \<open>
  \<open>chat_stream(messages, model, params)\<close>, with the daemon (\<open>ollama.chat\<close>) as the
  function from the request to the answer it streams. Log records of this function are
  left out of the model.
\<close>

definition chat_stream ::
  "(chat_request \<Rightarrow> chunk gen) \<Rightarrow> (string \<times> pystr) list list \<Rightarrow> pystr \<Rightarrow> model_parameters
     \<Rightarrow> pystr gen" where
  "chat_stream ollama_chat messages model params =
     chat_stream_loop model (ollama_chat (chat_call messages model params))"

section \<open>Timestamps and log records\<close>

text \<open>
  A naive \<open>datetime\<close>, as \<open>datetime.now()\<close> returns it. Python compares two of them
  field by field, from the year down to the microsecond.
\<close>

record datetime =
  year :: nat
  month :: nat
  day :: nat
  hour :: nat
  minute :: nat
  second :: nat
  microsecond :: nat

definition dt_key :: "datetime \<Rightarrow> nat \<times> nat \<times> nat \<times> nat \<times> nat \<times> nat \<times> nat" where
  "dt_key d = (year d, month d, day d, hour d, minute d, second d, microsecond d)"

text \<open>
  A log record: its level and the constant text that its message starts with.
\<close>

datatype log_level = DEBUG | INFO | WARNING | ERROR

type_synonym log_record = "log_level \<times> string"

section \<open>Session store (services/session\_manager.py)\<close>

datatype role = User | Assistant | System

record chat_message =
  role :: role
  content :: pystr
  timestamp :: datetime

record chat_session =
  session_id :: pystr
  model_name :: pystr
  messages :: "chat_message list"
  parameters :: model_parameters
  system_prompt :: "pystr option"
  created_at :: datetime
  updated_at :: datetime

text \<open>
  The session directory holds one file \<open><session_id>.json\<close> per entry, in the order in
  which the directory lists them. A file holds the JSON form of a session
  (\<open>SessionJson\<close>), a JSON object that is not one, such as \<open>{}\<close> (\<open>OtherJson\<close>), or content
  on which the read fails earlier: a file that cannot be opened or is not a JSON object
  (\<open>Unparseable\<close>).
\<close>

datatype file_content = Unparseable | OtherJson | SessionJson chat_session

type_synonym directory = "(pystr \<times> file_content) list"

text \<open>
  \<open>ChatSession(**data)\<close> on the parsed JSON: the nested parameters are validated by
  \<open>ModelParameters\<close>.
\<close>

definition ChatSession :: "chat_session \<Rightarrow> validation_error + chat_session" where
  "ChatSession data =
     (case ModelParameters (temperature (parameters data)) (top_p (parameters data))
             (max_tokens (parameters data)) of
        Inl errors \<Rightarrow> Inl errors
      | Inr params \<Rightarrow> Inr (data\<lparr>parameters := params\<rparr>))"

text \<open>
  \<open>load_session\<close>: every exception of the \<open>try\<close> block is caught inside, so the
  function returns a session or \<open>None\<close> and never raises.
\<close>

definition load_session :: "directory \<Rightarrow> pystr \<Rightarrow> chat_session option \<times> log_record list" where
  "load_session dir sid =
     (let log = [(INFO, ''Loading session: ''), (DEBUG, ''Session path: '')]
      in case map_of dir sid of
           None \<Rightarrow> (None, log @ [(WARNING, ''Session '')])
         | Some Unparseable \<Rightarrow> (None, log @ [(ERROR, ''Error loading session '')])
         | Some OtherJson \<Rightarrow>
             (None, log @ [(DEBUG, ''Loaded session data: ''),
                           (ERROR, ''Error loading session '')])
         | Some (SessionJson data) \<Rightarrow>
             (case ChatSession data of
                Inl errors \<Rightarrow>
                  (None, log @ [(DEBUG, ''Loaded session data: ''),
                                (ERROR, ''Error loading session '')])
              | Inr session \<Rightarrow>
                  (Some session, log @ [(DEBUG, ''Loaded session data: ''),
                                        (INFO, ''Successfully loaded session '')])))"

text \<open>\<open>open(session_path, "w")\<close> and \<open>json.dump\<close>: the file is replaced or created.\<close>

fun write_file :: "pystr \<Rightarrow> file_content \<Rightarrow> directory \<Rightarrow> directory" where
  "write_file sid c [] = [(sid, c)]"
| "write_file sid c ((sid', c') # dir) =
     (if sid' = sid then (sid, c) # dir else (sid', c') # write_file sid c dir)"

text \<open>
  What can go wrong when the file is written: \<open>open\<close> raises and the directory stays
  as it is, or the write stops after \<open>open\<close> has truncated the file.
\<close>

datatype write_fault = OpenFails | DumpFails

record save_result =
  raised :: "exn option"
  dir_after :: directory
  save_log :: "log_record list"

text \<open>
  \<open>save_session\<close>. The two readings of the clock, \<open>datetime.now()\<close> for
  \<open>created_at\<close> and later for \<open>updated_at\<close>, are the pair \<open>clock\<close>. The handler around
  the call of \<open>load_session\<close> has no branch here, since \<open>load_session\<close> does not raise.
\<close>

definition save_session ::
  "directory \<Rightarrow> datetime \<times> datetime \<Rightarrow> write_fault option \<Rightarrow> pystr \<Rightarrow> pystr
     \<Rightarrow> chat_message list \<Rightarrow> model_parameters \<Rightarrow> pystr option \<Rightarrow> save_result" where
  "save_session dir clock fault sid model msgs params prompt =
     (let log1 = [(INFO, ''Saving session: ''), (DEBUG, ''Session details: model=''),
                  (DEBUG, ''Session path: '')];
          (created, log2) =
            (if map_of dir sid \<noteq> None
             then (let (existing, load_log) = load_session dir sid;
                       log = [(DEBUG, ''Session '')] @ load_log
                   in case existing of
                        Some e \<Rightarrow> (created_at e, log @ [(DEBUG, ''Preserved created_at: '')])
                      | None \<Rightarrow> (fst clock, log))
             else (fst clock, []));
          session = \<lparr>session_id = sid, model_name = model, messages = msgs,
                     parameters = params, system_prompt = prompt,
                     created_at = created, updated_at = snd clock\<rparr>;
          log3 = log1 @ log2 @ [(DEBUG, ''Created session object: created_at='')]
      in case fault of
           None \<Rightarrow>
             \<lparr>raised = None, dir_after = write_file sid (SessionJson session) dir,
              save_log = log3 @ [(INFO, ''Successfully saved session '')]\<rparr>
         | Some OpenFails \<Rightarrow>
             \<lparr>raised = Some (OSError []), dir_after = dir,
              save_log = log3 @ [(ERROR, ''Failed to save session '')]\<rparr>
         | Some DumpFails \<Rightarrow>
             \<lparr>raised = Some (OSError []), dir_after = write_file sid Unparseable dir,
              save_log = log3 @ [(ERROR, ''Failed to save session '')]\<rparr>)"

text \<open>\<open>list_sessions\<close>: the stems of the \<open>*.json\<close> files, in listing order.\<close>

definition list_sessions :: "directory \<Rightarrow> pystr list \<times> log_record list" where
  "list_sessions dir =
     (map fst dir,
      [(DEBUG, ''Listing all available sessions''), (DEBUG, ''Scanning session directory: ''),
       (INFO, ''Found ''), (DEBUG, ''Session IDs: '')])"

text \<open>\<open>str.isspace\<close> on one code point, and \<open>str.strip()\<close>.\<close>

definition isspace :: "nat \<Rightarrow> bool" where
  "isspace c \<longleftrightarrow>
     (9 \<le> c \<and> c \<le> 13) \<or> (28 \<le> c \<and> c \<le> 32) \<or> c = 133 \<or> c = 160 \<or> c = 5760
     \<or> (8192 \<le> c \<and> c \<le> 8202) \<or> c = 8232 \<or> c = 8233 \<or> c = 8239 \<or> c = 8287
     \<or> c = 12288"

definition strip :: "pystr \<Rightarrow> pystr" where
  "strip s = rev (dropWhile isspace (rev (dropWhile isspace s)))"

text \<open>\<open>get_session_preview\<close>; \<open>max_length\<close> is not negative.\<close>

fun first_user_message :: "chat_message list \<Rightarrow> chat_message option" where
  "first_user_message [] = None"
| "first_user_message (msg # msgs) =
     (if role msg = User then Some msg else first_user_message msgs)"

definition get_session_preview :: "chat_session \<Rightarrow> nat \<Rightarrow> pystr" where
  "get_session_preview session max_length =
     (case first_user_message (messages session) of
        Some msg \<Rightarrow>
          (let preview = map (\<lambda>c. if c = 10 then 32 else c) (strip (content msg))
           in if length preview > max_length then take max_length preview @ lit ''...''
              else preview)
      | None \<Rightarrow> session_id session)"

record session_details =
  entry_session_id :: pystr
  entry_preview :: pystr
  entry_message_count :: nat
  entry_model :: pystr
  entry_created_at :: datetime
  entry_updated_at :: datetime

text \<open>The body of the loop of \<open>list_sessions_detailed\<close> for one session id.\<close>

definition session_entry :: "directory \<Rightarrow> pystr \<Rightarrow> session_details list" where
  "session_entry dir sid =
     (case fst (load_session dir sid) of
        Some session \<Rightarrow>
          [\<lparr>entry_session_id = sid,
            entry_preview = get_session_preview session 50,
            entry_message_count = length (messages session),
            entry_model = model_name session,
            entry_created_at = created_at session,
            entry_updated_at = updated_at session\<rparr>]
      | None \<Rightarrow> [])"

text \<open>
  \<open>xs.sort(key=k, reverse=True)\<close>: descending, and elements with equal keys keep
  their order. The log records of \<open>list_sessions_detailed\<close> are left out.
\<close>

definition sort_reverse :: "('a \<Rightarrow> 'k::linorder) \<Rightarrow> 'a list \<Rightarrow> 'a list" where
  "sort_reverse k xs = rev (sort_key k (rev xs))"

definition list_sessions_detailed :: "directory \<Rightarrow> session_details list" where
  "list_sessions_detailed dir =
     sort_reverse (\<lambda>x. dt_key (entry_updated_at x))
       (concat (map (session_entry dir) (fst (list_sessions dir))))"

text \<open>\<open>datetime.now().strftime("%Y-%m-%d_%H-%M-%S")\<close>, for a year of four digits.\<close>

fun decimal :: "nat \<Rightarrow> pystr" where
  "decimal n = (if n < 10 then [48 + n] else decimal (n div 10) @ [48 + n mod 10])"

definition two_digits :: "nat \<Rightarrow> pystr" where
  "two_digits n = [48 + n div 10 mod 10, 48 + n mod 10]"

definition generate_session_id :: "datetime \<Rightarrow> pystr" where
  "generate_session_id now =
     decimal (year now) @ lit ''-'' @ two_digits (month now) @ lit ''-'' @ two_digits (day now)
     @ lit ''_'' @ two_digits (hour now) @ lit ''-'' @ two_digits (minute now) @ lit ''-''
     @ two_digits (second now)"

section \<open>Model filter (services/model\_manager.py)\<close>

record model_info =
  name :: pystr
  size' :: "int option"
  modified_at :: "datetime option"
  digest :: "pystr option"
  family :: "pystr option"

datatype re_flag = IGNORECASE

text \<open>
  \<open>filter_models\<close>. The regular expressions of the standard library are parameters:
  \<open>re_compile\<close> gives a compiled pattern or the exception that \<open>re.compile\<close> raises,
  \<open>re_search\<close> tells whether \<open>regex.search\<close> finds a match. Only \<open>re.error\<close> is caught.
\<close>

definition filter_models ::
  "(pystr \<Rightarrow> re_flag \<Rightarrow> exn + 'r) \<Rightarrow> ('r \<Rightarrow> pystr \<Rightarrow> bool) \<Rightarrow> model_info list \<Rightarrow> pystr
     \<Rightarrow> (exn + model_info list) \<times> log_record list" where
  "filter_models re_compile re_search models pattern =
     (let log = [(DEBUG, ''Filtering '')]
      in if pattern = []
         then (Inr models, log @ [(DEBUG, ''No pattern provided, returning all models'')])
         else case re_compile pattern IGNORECASE of
                Inr regex \<Rightarrow>
                  (Inr (filter (\<lambda>m. re_search regex (name m)) models),
                   log @ [(DEBUG, ''Compiled regex pattern: ''), (INFO, ''Filter matched ''),
                          (DEBUG, ''Matched models: '')])
              | Inl (ReError e) \<Rightarrow>
                  (Inr models, log @ [(WARNING, ''Invalid regex pattern '')])
              | Inl e \<Rightarrow> (Inl e, log))"

section \<open>Download progress (ui/chat.py, on\_chat\_start)\<close>

subsection \<open>Float arithmetic\<close>

text \<open>
  Python floats are IEEE 754 binary64 numbers: 53 significant bits, least exponent
  \<open>-1022\<close>, results rounded to the nearest representable number, ties to the even one.
\<close>

text \<open>\<open>int.bit_length()\<close> of a number that is not negative.\<close>

function bit_length :: "int \<Rightarrow> int" where
  "bit_length n = (if n \<le> 0 then 0 else 1 + bit_length (n div 2))"
  by pat_completeness auto
termination
  by (relation "measure nat") auto

definition pow2 :: "int \<Rightarrow> rat" where
  "pow2 e = (if 0 \<le> e then 2 ^ nat e else 1 / 2 ^ nat (- e))"

text \<open>For \<open>q > 0\<close>, the exponent \<open>e\<close> with \<open>2^e \<le> q < 2^(e+1)\<close>.\<close>

definition floor_log2 :: "rat \<Rightarrow> int" where
  "floor_log2 q =
     (let (n, d) = quotient_of q;
          e = bit_length n - bit_length d
      in if pow2 e \<le> q then e else e - 1)"

definition round_half_even :: "rat \<Rightarrow> int" where
  "round_half_even q =
     (let f = \<lfloor>q\<rfloor>; r = q - of_int f
      in if r < 1 / 2 then f else if 1 / 2 < r then f + 1 else if even f then f else f + 1)"

definition round_binary64 :: "rat \<Rightarrow> rat" where
  "round_binary64 q =
     (if q = 0 then 0
      else let a = \<bar>q\<bar>;
               e = max (floor_log2 a) (- 1022);
               ulp = pow2 (e - 52)
           in sgn q * of_int (round_half_even (a / ulp)) * ulp)"

text \<open>A float result that may be infinite.\<close>

datatype xfloat = Finite pyfloat | Infinity

text \<open>\<open>a / b\<close> on two ints: the correctly rounded quotient.\<close>

definition int_truediv :: "int \<Rightarrow> int \<Rightarrow> exn + pyfloat" where
  "int_truediv a b =
     (if b = 0 then Inl (ZeroDivisionError (lit ''division by zero''))
      else let r = round_binary64 (of_int a / of_int b)
           in if 2 ^ 1024 \<le> \<bar>r\<bar>
              then Inl (OverflowError (lit ''integer division result too large for a float''))
              else Inr r)"

text \<open>\<open>x * n\<close> for a float \<open>x\<close> and a small int \<open>n\<close> that converts to a float exactly.\<close>

definition float_mul_int :: "pyfloat \<Rightarrow> int \<Rightarrow> xfloat" where
  "float_mul_int x n =
     (let r = round_binary64 (x * of_int n)
      in if 2 ^ 1024 \<le> \<bar>r\<bar> then Infinity else Finite r)"

text \<open>\<open>int(x)\<close>: truncation towards zero.\<close>

definition int_of_float :: "xfloat \<Rightarrow> exn + int" where
  "int_of_float x =
     (case x of
        Infinity \<Rightarrow> Inl (OverflowError (lit ''cannot convert float infinity to integer''))
      | Finite r \<Rightarrow> Inr (if 0 \<le> r then \<lfloor>r\<rfloor> else \<lceil>r\<rceil>))"

subsection \<open>One progress snapshot\<close>

record progress =
  status :: "pystr option"
  completed :: "int option"
  total :: "int option"

text \<open>\<open>progress.get(key) or default\<close>: a missing, \<open>None\<close> or zero value gives the default.\<close>

definition get_or :: "int option \<Rightarrow> int \<Rightarrow> int" where
  "get_or v dflt = (case v of None \<Rightarrow> dflt | Some n \<Rightarrow> if n = 0 then dflt else n)"

definition percentage :: "progress \<Rightarrow> exn + int" where
  "percentage p =
     (let completed = get_or (completed p) 0;
          total = get_or (total p) 1
      in if total \<noteq> 0 \<and> 0 < total
         then (case int_truediv completed total of
                 Inl e \<Rightarrow> Inl e
               | Inr q \<Rightarrow> int_of_float (float_mul_int q 100))
         else Inr 0)"

definition bar_length :: int where
  "bar_length = 20"

definition filled :: "int \<Rightarrow> exn + int" where
  "filled pct =
     (case int_truediv (bar_length * pct) 100 of
        Inl e \<Rightarrow> Inl e
      | Inr q \<Rightarrow> int_of_float (Finite q))"

text \<open>
  \<open>s * n\<close> repeats a string, not at all when \<open>n\<close> is negative; the two cells are
  U+2588 and U+2591.
\<close>

definition bar :: "int \<Rightarrow> pystr" where
  "bar n = replicate (nat n) 0x2588 @ replicate (nat (bar_length - n)) 0x2591"

section \<open>Sample values\<close>

text \<open>Values for the concrete instances of the theorems below.\<close>

abbreviation sample_time :: "nat \<Rightarrow> datetime" where
  "sample_time h \<equiv>
     \<lparr>year = 2025, month = 6, day = 1, hour = h, minute = 0, second = 0, microsecond = 0\<rparr>"

abbreviation sample_params :: model_parameters where
  "sample_params \<equiv> \<lparr>temperature = 7 / 10, top_p = 9 / 10, max_tokens = None\<rparr>"

abbreviation sample_session :: "pystr \<Rightarrow> datetime \<Rightarrow> datetime \<Rightarrow> chat_session" where
  "sample_session sid c u \<equiv>
     \<lparr>session_id = sid, model_name = lit ''llama3'',
      messages = [\<lparr>role = User, content = lit ''Test'', timestamp = c\<rparr>],
      parameters = sample_params, system_prompt = None, created_at = c, updated_at = u\<rparr>"

text \<open>A daemon that answers every request with the given stream.\<close>

definition daemon_answering :: "chunk gen \<Rightarrow> chat_request \<Rightarrow> chunk gen" where
  "daemon_answering answer req = answer"

text \<open>
  What \<open>re.compile\<close> of CPython answers on the patterns of the instances below: a
  repetition count of \<open>2^32\<close> raises \<open>OverflowError\<close>, an open character set raises
  \<open>re.error\<close>. For the other patterns the compiled form is the pattern itself, and a
  search looks for it as a substring.
\<close>

definition sample_compile :: "pystr \<Rightarrow> re_flag \<Rightarrow> exn + pystr" where
  "sample_compile pattern flag =
     (if pattern = lit ''a{4294967296}''
      then Inl (OverflowError (lit ''the repetition number is too large''))
      else if pattern = lit ''[invalid''
      then Inl (ReError (lit ''unterminated character set at position 0''))
      else Inr pattern)"

definition sample_search :: "pystr \<Rightarrow> pystr \<Rightarrow> bool" where
  "sample_search regex s = str_contains s regex"

section \<open>Properties of chat streaming\<close>

lemma chat_stream_loop_yields:
  "chat_stream_loop mdl (yields frags g) =
     yields (filter (\<lambda>c. c \<noteq> []) (map chunk_content frags)) (chat_stream_loop mdl g)"
  by (induction frags) (simp_all add: Let_def)

lemma embedding_error_msg_nonempty: "embedding_error_msg mdl \<noteq> []"
  by (simp add: embedding_error_msg_def)

lemma chat_stream_except_inline:
  "\<forall>s. e \<noteq> ConnectionError s \<Longrightarrow>
     \<exists>msg. msg \<noteq> [] \<and> chat_stream_except mdl e = Yield msg Stop"
  by (cases e) (simp_all add: embedding_error_msg_nonempty)

lemma chat_stream_loop_connection_error:
  "chat_stream_loop mdl (yields frags (Raise (ConnectionError e))) =
     yields (filter (\<lambda>c. c \<noteq> []) (map chunk_content frags))
       (Raise (OllamaNotRunningError
                 (lit ''Ollama is not running. Start it with: ollama serve'')))"
  by (simp add: chat_stream_loop_yields)

text \<open>
  C1. When the daemon streams the fragments \<open>frags\<close> and then completes, \<open>chat_stream\<close>
  yields the contents of the fragments whose content is a nonempty string, one chunk
  for each and in the order of delivery, yields nothing for the fragments whose content
  is empty or missing, and then returns.
\<close>

theorem chat_stream_chunks:
  assumes "ollama_chat (chat_call msgs mdl params) = yields frags Stop"
  shows "chat_stream ollama_chat msgs mdl params =
           yields (filter (\<lambda>c. c \<noteq> []) (map chunk_content frags)) Stop"
  using assms by (simp add: chat_stream_def chat_stream_loop_yields)

theorem chat_stream_chunks_witness:
  "(\<lambda>req. yields [Chunk (Some (Message (Some (lit ''Hello'')))),
                   Chunk (Some (Message (Some (lit '''')))),
                   Chunk (Some (Message None)),
                   Chunk None,
                   Chunk (Some (Message (Some (lit '' world''))))] Stop)
     (chat_call [[(''role'', lit ''user''), (''content'', lit ''Hi'')]] (lit ''llama3'')
        \<lparr>temperature = 7 / 10, top_p = 9 / 10, max_tokens = None\<rparr>)
   = yields [Chunk (Some (Message (Some (lit ''Hello'')))),
             Chunk (Some (Message (Some (lit '''')))),
             Chunk (Some (Message None)),
             Chunk None,
             Chunk (Some (Message (Some (lit '' world''))))] Stop
   \<and> chat_stream
       (\<lambda>req. yields [Chunk (Some (Message (Some (lit ''Hello'')))),
                       Chunk (Some (Message (Some (lit '''')))),
                       Chunk (Some (Message None)),
                       Chunk None,
                       Chunk (Some (Message (Some (lit '' world''))))] Stop)
       [[(''role'', lit ''user''), (''content'', lit ''Hi'')]] (lit ''llama3'')
       \<lparr>temperature = 7 / 10, top_p = 9 / 10, max_tokens = None\<rparr>
     = Yield (lit ''Hello'') (Yield (lit '' world'') Stop)"
  using chat_stream_chunks [of
      "\<lambda>req. yields [Chunk (Some (Message (Some (lit ''Hello'')))),
                     Chunk (Some (Message (Some (lit '''')))),
                     Chunk (Some (Message None)),
                     Chunk None,
                     Chunk (Some (Message (Some (lit '' world''))))] Stop"
      "[[(''role'', lit ''user''), (''content'', lit ''Hi'')]]" "lit ''llama3''"
      "\<lparr>temperature = 7 / 10, top_p = 9 / 10, max_tokens = None\<rparr>"
      "[Chunk (Some (Message (Some (lit ''Hello'')))),
        Chunk (Some (Message (Some (lit '''')))),
        Chunk (Some (Message None)),
        Chunk None,
        Chunk (Some (Message (Some (lit '' world''))))]"]
  by simp

text \<open>
  C2. When the call of the daemon raises a connection error before it has produced a
  fragment, \<open>chat_stream\<close> raises \<open>OllamaNotRunningError\<close> and has yielded no chunk.
\<close>

theorem chat_stream_connection_error:
  assumes "ollama_chat (chat_call msgs mdl params) = Raise (ConnectionError e)"
  shows "chat_stream ollama_chat msgs mdl params =
           Raise (OllamaNotRunningError
                    (lit ''Ollama is not running. Start it with: ollama serve''))"
  using assms by (simp add: chat_stream_def)

theorem chat_stream_connection_error_witness:
  "chat_stream (\<lambda>req. Raise (ConnectionError (lit ''Failed to connect to Ollama'')))
     [[(''role'', lit ''user''), (''content'', lit ''Hi'')]] (lit ''llama3'')
     \<lparr>temperature = 7 / 10, top_p = 9 / 10, max_tokens = None\<rparr>
   = Raise (OllamaNotRunningError (lit ''Ollama is not running. Start it with: ollama serve''))"
  using chat_stream_connection_error [of
      "\<lambda>req. Raise (ConnectionError (lit ''Failed to connect to Ollama''))"
      "[[(''role'', lit ''user''), (''content'', lit ''Hi'')]]" "lit ''llama3''"
      "\<lparr>temperature = 7 / 10, top_p = 9 / 10, max_tokens = None\<rparr>"
      "lit ''Failed to connect to Ollama''"]
  by simp

text \<open>
  C3 (as amended). When the daemon, after the fragments \<open>frags\<close>, fails with an error
  of its API (the model cannot do chat, or another \<open>ResponseError\<close>) or with any other
  exception that is not a connection error, \<open>chat_stream\<close> does not raise: it yields the
  chunks of \<open>frags\<close>, then one nonempty explanatory chunk, and returns. For a model that
  does not support chat that chunk is the explanation about embedding models.
\<close>

theorem chat_stream_inline_errors:
  assumes "ollama_chat (chat_call msgs mdl params) = yields frags (Raise e)"
    and "\<forall>s. e \<noteq> ConnectionError s"
  shows "(\<exists>msg. msg \<noteq> [] \<and>
            chat_stream ollama_chat msgs mdl params =
              yields (filter (\<lambda>c. c \<noteq> []) (map chunk_content frags)) (Yield msg Stop))
         \<and> (\<forall>s. e = ResponseError s \<and> str_contains s (lit ''does not support chat'') \<longrightarrow>
               chat_stream ollama_chat msgs mdl params =
                 yields (filter (\<lambda>c. c \<noteq> []) (map chunk_content frags))
                   (Yield (embedding_error_msg mdl) Stop))"
proof -
  from assms(2) obtain msg where "msg \<noteq> []" "chat_stream_except mdl e = Yield msg Stop"
    using chat_stream_except_inline by blast
  with assms(1) show ?thesis
    by (auto simp: chat_stream_def chat_stream_loop_yields)
qed

theorem chat_stream_inline_errors_witness:
  "(\<forall>s. ResponseError (lit ''model does not support chat (status code: 400)'')
          \<noteq> ConnectionError s)
   \<and> str_contains (lit ''model does not support chat (status code: 400)'')
        (lit ''does not support chat'')
   \<and> chat_stream
       (\<lambda>req. yields [Chunk (Some (Message (Some (lit ''Hel''))))]
                (Raise (ResponseError (lit ''model does not support chat (status code: 400)''))))
       [[(''role'', lit ''user''), (''content'', lit ''Hi'')]] (lit ''nomic-embed-text'')
       \<lparr>temperature = 7 / 10, top_p = 9 / 10, max_tokens = None\<rparr>
     = Yield (lit ''Hel'') (Yield (embedding_error_msg (lit ''nomic-embed-text'')) Stop)"
  using chat_stream_inline_errors [of
      "\<lambda>req. yields [Chunk (Some (Message (Some (lit ''Hel''))))]
                (Raise (ResponseError (lit ''model does not support chat (status code: 400)'')))"
      "[[(''role'', lit ''user''), (''content'', lit ''Hi'')]]" "lit ''nomic-embed-text''"
      "\<lparr>temperature = 7 / 10, top_p = 9 / 10, max_tokens = None\<rparr>"
      "[Chunk (Some (Message (Some (lit ''Hel''))))]"
      "ResponseError (lit ''model does not support chat (status code: 400)'')"]
  by simp

text \<open>
  C3, as stated, fails for a connection error in the middle of the stream: after the
  chunk of the first fragment \<open>chat_stream\<close> raises \<open>OllamaNotRunningError\<close>; there is
  no explanatory chunk and no normal return.
\<close>

theorem chat_stream_midstream_connection_error:
  "chat_stream
     (daemon_answering
        (Yield (Chunk (Some (Message (Some (lit ''Hel'')))))
           (Raise (ConnectionError (lit ''Connection reset by peer'')))))
     [[(''role'', lit ''user''), (''content'', lit ''Hi'')]] (lit ''llama3'') sample_params
   = Yield (lit ''Hel'')
       (Raise (OllamaNotRunningError
                 (lit ''Ollama is not running. Start it with: ollama serve'')))"
  by (simp add: chat_stream_def daemon_answering_def)

section \<open>Properties of the schemas and of the request\<close>

text \<open>
  C5. Constructing \<open>ModelParameters(temperature=t, top_p=p, max_tokens=m)\<close> succeeds
  exactly when \<open>0 \<le> t \<le> 2\<close>, \<open>0 \<le> p \<le> 1\<close> and \<open>m\<close> is absent or at least 1. When it
  succeeds the object holds the three values as given, nothing is clamped; when it
  fails, the validation error names at least one broken constraint.
\<close>

theorem ModelParameters_construction:
  "((\<exists>params. ModelParameters t p m = Inr params) \<longleftrightarrow>
      0 \<le> t \<and> t \<le> 2 \<and> 0 \<le> p \<and> p \<le> 1 \<and> (m = None \<or> (\<exists>n. m = Some n \<and> 1 \<le> n)))
   \<and> (\<forall>params. ModelParameters t p m = Inr params \<longrightarrow>
          params = \<lparr>temperature = t, top_p = p, max_tokens = m\<rparr>)
   \<and> (\<forall>errors. ModelParameters t p m = Inl errors \<longrightarrow> errors \<noteq> [])"
  by (cases m)
    (auto simp: ModelParameters_def check_ge_def check_le_def Let_def split: if_splits)

theorem ModelParameters_construction_witness:
  "ModelParameters (7 / 10) (9 / 10) (Some 2000)
     = Inr \<lparr>temperature = 7 / 10, top_p = 9 / 10, max_tokens = Some 2000\<rparr>
   \<and> ModelParameters (21 / 10) (9 / 10) None = Inl [(''temperature'', LessThanEqual)]
   \<and> ModelParameters (7 / 10) (9 / 10) (Some 0) = Inl [(''max_tokens'', GreaterThanEqual)]"
  using ModelParameters_construction [of "7 / 10" "9 / 10" "Some 2000"]
  by (simp add: ModelParameters_def check_ge_def check_le_def)

text \<open>
  C7. For parameters that \<open>ModelParameters\<close> accepts, the options of the request that
  \<open>chat_stream\<close> passes to the daemon hold \<open>temperature\<close> and \<open>top_p\<close> as given; a set
  \<open>max_tokens\<close> is passed under the key \<open>num_predict\<close>, and when \<open>max_tokens\<close> is unset
  the key \<open>num_predict\<close> is not in the options at all. There is no other key.
\<close>

theorem chat_options_fields:
  assumes "ModelParameters t p m = Inr params"
  shows "req_options (chat_call msgs mdl params) ''temperature'' = Some (FloatValue t)
       \<and> req_options (chat_call msgs mdl params) ''top_p'' = Some (FloatValue p)
       \<and> req_options (chat_call msgs mdl params) ''num_predict'' = map_option IntValue m
       \<and> (m = None \<longleftrightarrow> ''num_predict'' \<notin> dom (req_options (chat_call msgs mdl params)))
       \<and> dom (req_options (chat_call msgs mdl params))
           \<subseteq> {''temperature'', ''top_p'', ''num_predict''}"
  using assms
  by (cases m)
    (auto simp: ModelParameters_def check_ge_def check_le_def Let_def chat_call_def
       chat_options_def split: if_splits)

theorem chat_options_fields_witness:
  "ModelParameters (7 / 10) (9 / 10) (Some 100)
     = Inr \<lparr>temperature = 7 / 10, top_p = 9 / 10, max_tokens = Some 100\<rparr>
   \<and> req_options (chat_call [] (lit ''llama3'')
         \<lparr>temperature = 7 / 10, top_p = 9 / 10, max_tokens = Some 100\<rparr>) ''num_predict''
       = Some (IntValue 100)
   \<and> ModelParameters (7 / 10) (9 / 10) None
     = Inr \<lparr>temperature = 7 / 10, top_p = 9 / 10, max_tokens = None\<rparr>
   \<and> req_options (chat_call [] (lit ''llama3'')
         \<lparr>temperature = 7 / 10, top_p = 9 / 10, max_tokens = None\<rparr>) ''num_predict''
       = None"
  using chat_options_fields [of "7 / 10" "9 / 10" "Some 100"
      "\<lparr>temperature = 7 / 10, top_p = 9 / 10, max_tokens = Some 100\<rparr>" "[]" "lit ''llama3''"]
    chat_options_fields [of "7 / 10" "9 / 10" "None"
      "\<lparr>temperature = 7 / 10, top_p = 9 / 10, max_tokens = None\<rparr>" "[]" "lit ''llama3''"]
  by (simp add: ModelParameters_def check_ge_def check_le_def)

section \<open>Properties of the model filter\<close>

text \<open>
  For a nonempty pattern that \<open>re.compile\<close> rejects with \<open>re.error\<close>, \<open>filter_models\<close>
  returns the list it was given, unchanged, logs a warning and does not raise.
\<close>

theorem filter_models_invalid_pattern:
  assumes "pattern \<noteq> []" and "re_compile pattern IGNORECASE = Inl (ReError e)"
  shows "fst (filter_models re_compile re_search models pattern) = Inr models
       \<and> (WARNING, ''Invalid regex pattern '')
           \<in> set (snd (filter_models re_compile re_search models pattern))"
  using assms by (simp add: filter_models_def)

theorem filter_models_invalid_pattern_witness:
  "lit ''[invalid'' \<noteq> []
   \<and> (\<lambda>p f. if p = lit ''[invalid''
             then Inl (ReError (lit ''unterminated character set at position 0''))
             else Inr p) (lit ''[invalid'') IGNORECASE
       = Inl (ReError (lit ''unterminated character set at position 0''))
   \<and> fst (filter_models
            (\<lambda>p f. if p = lit ''[invalid''
                    then Inl (ReError (lit ''unterminated character set at position 0''))
                    else Inr p)
            (\<lambda>r s. str_contains s r)
            [\<lparr>name = lit ''model1'', size' = None, modified_at = None, digest = None,
               family = None\<rparr>,
             \<lparr>name = lit ''model2'', size' = None, modified_at = None, digest = None,
               family = None\<rparr>]
            (lit ''[invalid''))
       = Inr [\<lparr>name = lit ''model1'', size' = None, modified_at = None, digest = None,
                 family = None\<rparr>,
              \<lparr>name = lit ''model2'', size' = None, modified_at = None, digest = None,
                 family = None\<rparr>]"
  using filter_models_invalid_pattern [of "lit ''[invalid''"
      "\<lambda>p f. if p = lit ''[invalid''
              then Inl (ReError (lit ''unterminated character set at position 0''))
              else Inr p"
      "lit ''unterminated character set at position 0''"
      "\<lambda>r s. str_contains s r"
      "[\<lparr>name = lit ''model1'', size' = None, modified_at = None, digest = None,
          family = None\<rparr>,
        \<lparr>name = lit ''model2'', size' = None, modified_at = None, digest = None,
          family = None\<rparr>]"]
  by simp

text \<open>
  C6. The pattern \<open>a{4294967296}\<close> does not compile: \<open>re.compile\<close> raises
  \<open>OverflowError\<close>, which is not \<open>re.error\<close>. \<open>filter_models\<close> does not catch it: the
  call raises, returns no list and logs no warning.
\<close>

theorem filter_models_overflow_raises:
  "sample_compile (lit ''a{4294967296}'') IGNORECASE
     = Inl (OverflowError (lit ''the repetition number is too large''))
   \<and> filter_models sample_compile sample_search
       [\<lparr>name = lit ''model1'', size' = None, modified_at = None, digest = None,
          family = None\<rparr>,
        \<lparr>name = lit ''model2'', size' = None, modified_at = None, digest = None,
          family = None\<rparr>]
       (lit ''a{4294967296}'')
     = (Inl (OverflowError (lit ''the repetition number is too large'')),
        [(DEBUG, ''Filtering '')])"
  by (simp add: filter_models_def sample_compile_def)

section \<open>Properties of the session identifier\<close>

lemma generate_session_id_microsecond:
  "generate_session_id (now\<lparr>microsecond := u\<rparr>) = generate_session_id now"
  by (simp add: generate_session_id_def)

text \<open>
  C10. Two calls of \<open>generate_session_id\<close> at different times of the same second return
  the same identifier: the identifier does not depend on the microseconds.
\<close>

theorem generate_session_id_collision:
  "\<lparr>year = 2026, month = 11, day = 3, hour = 12, minute = 0, second = 0, microsecond = 100000\<rparr>
     \<noteq> \<lparr>year = 2026, month = 11, day = 3, hour = 12, minute = 0, second = 0,
         microsecond = 900000\<rparr>
   \<and> generate_session_id
       \<lparr>year = 2026, month = 11, day = 3, hour = 12, minute = 0, second = 0,
        microsecond = 100000\<rparr>
     = generate_session_id
       \<lparr>year = 2026, month = 11, day = 3, hour = 12, minute = 0, second = 0,
        microsecond = 900000\<rparr>
   \<and> generate_session_id
       \<lparr>year = 2026, month = 11, day = 3, hour = 12, minute = 0, second = 0,
        microsecond = 100000\<rparr>
     = lit ''2026-11-03_12-00-00''"
  by (simp add: generate_session_id_def two_digits_def)

section \<open>Properties of the download progress\<close>

subsection \<open>The rounding of floats\<close>

text \<open>
  The rounded value is a number of at most 53 significant bits at the exponent of the
  argument, and it is within half a unit in the last place of the argument.
\<close>

declare bit_length.simps [simp del]

lemma pow2_pos: "0 < pow2 e"
  by (simp add: pow2_def)

lemma pow2_powi: "pow2 e = 2 powi e"
  by (simp add: pow2_def power_int_def inverse_eq_divide power_one_over)

lemma bit_length_nonneg: "0 \<le> bit_length n"
proof (induction n rule: bit_length.induct)
  case (1 n)
  then show ?case
    by (cases "n \<le> 0") (simp_all add: bit_length.simps [of n])
qed

lemma bit_length_pos: "0 < n \<Longrightarrow> 0 < bit_length n"
  using bit_length_nonneg [of "n div 2"] by (simp add: bit_length.simps [of n])

lemma bit_length_bounds:
  "0 < n \<Longrightarrow> 2 ^ nat (bit_length n - 1) \<le> n \<and> n < 2 ^ nat (bit_length n)"
proof (induction n rule: bit_length.induct)
  case (1 n)
  show ?case
  proof (cases "n = 1")
    case True
    then show ?thesis
      by (simp add: bit_length.simps [of 1] bit_length.simps [of 0])
  next
    case False
    with "1.prems" have h: "0 < n div 2" by simp
    with "1.IH" "1.prems" have ih: "2 ^ nat (bit_length (n div 2) - 1) \<le> n div 2"
      "n div 2 < 2 ^ nat (bit_length (n div 2))"
      by simp_all
    have b: "bit_length n = 1 + bit_length (n div 2)"
      using "1.prems" by (simp add: bit_length.simps [of n])
    have p: "0 < bit_length (n div 2)" using h by (rule bit_length_pos)
    then have e: "(2::int) ^ nat (bit_length (n div 2)) = 2 * 2 ^ nat (bit_length (n div 2) - 1)"
      by (metis Suc_nat_eq_nat_zadd1 add.commute diff_add_cancel power_Suc zle_diff1_eq)
    have s: "nat (1 + bit_length (n div 2)) = Suc (nat (bit_length (n div 2)))"
      using p by simp
    have d: "2 * (n div 2) \<le> n" "n < 2 * (n div 2) + 2"
      by presburger+
    have "2 * 2 ^ nat (bit_length (n div 2) - 1) \<le> n"
      using ih(1) d(1) by linarith
    moreover have "n < 2 * 2 ^ nat (bit_length (n div 2))"
      using ih(2) d(2) by linarith
    ultimately show ?thesis
      using e by (simp add: b s)
  qed
qed


lemma bit_length_powi:
  assumes "0 < n"
  shows "2 powi (bit_length n - 1) \<le> (of_int n :: rat)" and "(of_int n :: rat) < 2 powi bit_length n"
proof -
  from bit_length_bounds [OF assms] bit_length_pos [OF assms]
  have a: "2 ^ nat (bit_length n - 1) \<le> n" and b: "n < 2 ^ nat (bit_length n)"
    and p: "0 < bit_length n"
    by simp_all
  from a have "(of_int (2 ^ nat (bit_length n - 1)) :: rat) \<le> of_int n"
    by (simp only: of_int_le_iff)
  with p show "2 powi (bit_length n - 1) \<le> (of_int n :: rat)"
    by (simp add: power_int_def)
  from b have "(of_int n :: rat) < of_int (2 ^ nat (bit_length n))"
    by (simp only: of_int_less_iff)
  with p show "(of_int n :: rat) < 2 powi bit_length n"
    by (simp add: power_int_def)
qed

lemma floor_log2_bounds:
  assumes "0 < q"
  shows "pow2 (floor_log2 q) \<le> q \<and> q < pow2 (floor_log2 q + 1)"
proof -
  obtain n d where nd: "quotient_of q = (n, d)"
    by (cases "quotient_of q")
  then have d: "0 < d" and q: "q = of_int n / of_int d"
    by (simp_all add: quotient_of_denom_pos quotient_of_div)
  with assms have n: "0 < n"
    by (simp add: zero_less_divide_iff)
  let ?e = "bit_length n - bit_length d"
  have upper: "q < 2 powi (?e + 1)"
  proof -
    have "q < 2 powi bit_length n / 2 powi (bit_length d - 1)"
      unfolding q using bit_length_powi [OF n] bit_length_powi [OF d] n d
      by (intro frac_less) simp_all
    also have "\<dots> = 2 powi (?e + 1)"
      by (simp add: power_int_diff [symmetric] algebra_simps)
    finally show ?thesis .
  qed
  have lower: "2 powi (?e - 1) \<le> q"
  proof -
    have "2 powi (bit_length n - 1) / 2 powi bit_length d \<le> q"
      unfolding q using bit_length_powi [OF n] bit_length_powi [OF d] n d
      by (intro frac_le) simp_all
    moreover have "2 powi (bit_length n - 1) / 2 powi bit_length d = (2::rat) powi (?e - 1)"
      by (simp add: power_int_diff [symmetric] algebra_simps)
    ultimately show ?thesis by simp
  qed
  show ?thesis
  proof (cases "pow2 ?e \<le> q")
    case True
    then show ?thesis
      using upper nd by (simp add: floor_log2_def pow2_powi)
  next
    case False
    then show ?thesis
      using lower nd by (simp add: floor_log2_def pow2_powi)
  qed
qed

lemma round_half_even_error: "\<bar>of_int (round_half_even q) - q\<bar> \<le> 1 / 2"
proof -
  have "of_int \<lfloor>q\<rfloor> \<le> q" "q < of_int \<lfloor>q\<rfloor> + 1"
    by linarith+
  then show ?thesis
    by (auto simp: round_half_even_def Let_def)
qed

lemma round_binary64_error:
  assumes "q \<noteq> 0"
  shows "\<bar>round_binary64 q - q\<bar> \<le> pow2 (max (floor_log2 \<bar>q\<bar>) (- 1022) - 52) / 2"
proof -
  let ?u = "pow2 (max (floor_log2 \<bar>q\<bar>) (- 1022) - 52)"
  let ?r = "of_int (round_half_even (\<bar>q\<bar> / ?u)) :: rat"
  have u: "0 < ?u" by (rule pow2_pos)
  have "sgn q * \<bar>q\<bar> = q"
    by (rule mult_sgn_abs)
  then have "round_binary64 q - q = sgn q * (?r * ?u - \<bar>q\<bar>)"
    using assms by (simp add: round_binary64_def Let_def right_diff_distrib mult.assoc)
  then have "\<bar>round_binary64 q - q\<bar> = \<bar>?r * ?u - \<bar>q\<bar>\<bar>"
    using assms by (simp add: abs_mult)
  also have "?r * ?u - \<bar>q\<bar> = (?r - \<bar>q\<bar> / ?u) * ?u"
    using u by (simp add: left_diff_distrib)
  also have "\<bar>(?r - \<bar>q\<bar> / ?u) * ?u\<bar> = \<bar>?r - \<bar>q\<bar> / ?u\<bar> * ?u"
    using u by (simp add: abs_mult)
  also have "\<dots> \<le> 1 / 2 * ?u"
    using u round_half_even_error [of "\<bar>q\<bar> / ?u"] by (intro mult_right_mono) simp_all
  finally show ?thesis by simp
qed


lemma round_half_even_le: "x \<le> of_int k \<Longrightarrow> round_half_even x \<le> k"
proof -
  assume a: "x \<le> of_int k"
  have f: "of_int \<lfloor>x\<rfloor> \<le> x" "x < of_int \<lfloor>x\<rfloor> + 1"
    by linarith+
  have "\<lfloor>x\<rfloor> \<le> k" using a by (simp add: floor_le_iff)
  moreover have "\<lfloor>x\<rfloor> + 1 \<le> k" if "1 / 2 \<le> x - of_int \<lfloor>x\<rfloor>"
  proof -
    from that a f have "of_int \<lfloor>x\<rfloor> < (of_int k :: rat)" by linarith
    then show ?thesis by simp
  qed
  ultimately show ?thesis
    by (auto simp: round_half_even_def Let_def)
qed

lemma round_half_even_ge: "of_int k \<le> x \<Longrightarrow> k \<le> round_half_even x"
proof -
  assume "of_int k \<le> x"
  then have "k \<le> \<lfloor>x\<rfloor>" by (simp add: le_floor_iff)
  then show ?thesis
    by (auto simp: round_half_even_def Let_def)
qed

lemma round_binary64_mantissa:
  assumes "q \<noteq> 0"
  shows "\<exists>m. 0 \<le> m \<and> m \<le> 2 ^ 53
           \<and> (- 1022 \<le> floor_log2 \<bar>q\<bar> \<longrightarrow> 2 ^ 52 \<le> m)
           \<and> round_binary64 q
               = sgn q * of_int m * pow2 (max (floor_log2 \<bar>q\<bar>) (- 1022) - 52)"
proof -
  let ?a = "\<bar>q\<bar>"
  let ?e = "max (floor_log2 ?a) (- 1022)"
  let ?u = "pow2 (?e - 52)"
  let ?m = "round_half_even (?a / ?u)"
  have a: "0 < ?a" using assms by simp
  have u: "0 < ?u" by (rule pow2_pos)
  from floor_log2_bounds [OF a]
  have lo: "pow2 (floor_log2 ?a) \<le> ?a" and hi: "?a < pow2 (floor_log2 ?a + 1)"
    by simp_all
  have "pow2 (floor_log2 ?a + 1) \<le> pow2 (?e + 1)"
    by (simp add: pow2_powi power_int_increasing)
  with hi have "?a < pow2 (?e + 1)" by simp
  then have "?a / ?u < pow2 (?e + 1) / ?u"
    using u by (simp add: divide_strict_right_mono)
  also have "pow2 (?e + 1) / ?u = 2 ^ 53"
    by (simp add: pow2_powi flip: power_int_diff)
  finally have "?a / ?u \<le> of_int (2 ^ 53)" by simp
  then have m_hi: "?m \<le> 2 ^ 53" by (rule round_half_even_le)
  have "of_int 0 \<le> ?a / ?u" using u by simp
  then have m_lo: "0 \<le> ?m" by (rule round_half_even_ge)
  have m_norm: "2 ^ 52 \<le> ?m" if n: "- 1022 \<le> floor_log2 ?a"
  proof -
    from n have e: "?e = floor_log2 ?a" by simp
    have "pow2 ?e / ?u \<le> ?a / ?u"
      using lo u by (simp add: e divide_right_mono)
    moreover have "pow2 ?e / ?u = 2 ^ 52"
      by (simp add: pow2_powi flip: power_int_diff)
    ultimately have "of_int (2 ^ 52) \<le> ?a / ?u" by simp
    then show ?thesis by (rule round_half_even_ge)
  qed
  have "round_binary64 q = sgn q * of_int ?m * ?u"
    using assms by (simp add: round_binary64_def Let_def)
  with m_lo m_hi m_norm show ?thesis by blast
qed

lemma rounding_29_of_100:
  "round_binary64 (29 / 100) = 5224175567749775 / 2 ^ 54
   \<and> (2 :: int) ^ 52 \<le> 5224175567749775 \<and> (5224175567749775 :: int) < 2 ^ 53
   \<and> \<bar>(5224175567749775 :: rat) / 2 ^ 54 - 29 / 100\<bar> < 1 / 2 ^ 55
   \<and> round_binary64 (5224175567749775 / 2 ^ 54 * 100) = 8162774324609023 / 2 ^ 48
   \<and> (2 :: int) ^ 52 \<le> 8162774324609023 \<and> (8162774324609023 :: int) < 2 ^ 53
   \<and> \<bar>(8162774324609023 :: rat) / 2 ^ 48 - 5224175567749775 / 2 ^ 54 * 100\<bar> < 1 / 2 ^ 49
   \<and> (28 :: rat) \<le> 8162774324609023 / 2 ^ 48 \<and> (8162774324609023 :: rat) / 2 ^ 48 < 29"
  by code_simp

subsection \<open>Percentage and bar\<close>

lemma get_or_missing: "get_or None d = d"
  by (simp add: get_or_def)

lemma percentage_half:
  "percentage \<lparr>status = None, completed = Some 2500, total = Some 5000\<rparr> = Inr 50"
  by code_simp

lemma filled_half: "filled 50 = Inr 10"
  by code_simp

lemma bar_cells:
  "0 \<le> n \<Longrightarrow> n \<le> bar_length \<Longrightarrow>
     bar n = replicate (nat n) 0x2588 @ replicate (nat (20 - n)) 0x2591 \<and> length (bar n) = 20"
  by (simp add: bar_def bar_length_def)

text \<open>
  C9. For the snapshot with \<open>completed = 29\<close> and \<open>total = 100\<close> the code computes the
  percentage 28: the quotient \<open>29 / 100\<close> is rounded to a float below \<open>0.29\<close>, its product
  with 100 to a float below 29, and \<open>int\<close> truncates. The floor of \<open>29 / 100 * 100\<close> is 29.
\<close>

theorem percentage_29_of_100:
  "percentage \<lparr>status = None, completed = Some 29, total = Some 100\<rparr> = Inr 28
   \<and> \<lfloor>(29 :: rat) / 100 * 100\<rfloor> = 29"
  by code_simp

section \<open>Properties of the session store\<close>

lemma map_of_write_file: "map_of (write_file sid c dir) sid = Some c"
  by (induction dir) auto

lemma map_of_write_file_other:
  "sid' \<noteq> sid \<Longrightarrow> map_of (write_file sid c dir) sid' = map_of dir sid'"
  by (induction dir) auto

lemma ChatSession_Inr: "ChatSession d = Inr e \<Longrightarrow> e = d"
  by (auto simp: ChatSession_def ModelParameters_def Let_def split: if_splits)

lemma load_session_Some:
  "map_of dir sid = Some (SessionJson d) \<Longrightarrow> ChatSession d = Inr e \<Longrightarrow>
     fst (load_session dir sid) = Some d"
  by (frule ChatSession_Inr) (simp add: load_session_def)

lemma load_session_None_log:
  "map_of dir sid = Some f \<Longrightarrow> fst (load_session dir sid) = None \<Longrightarrow>
     (ERROR, ''Error loading session '') \<in> set (snd (load_session dir sid))
     \<and> WARNING \<notin> fst ` set (snd (load_session dir sid))"
  by (cases f) (auto simp: load_session_def Let_def split: sum.splits)

lemma save_session_raised:
  "raised (save_session dir clock fault sid mdl msgs params prompt)
     = (case fault of None \<Rightarrow> None | Some w \<Rightarrow> Some (OSError []))"
  by (cases "load_session dir sid"; cases "fst (load_session dir sid)"; cases fault)
    (auto simp: save_session_def Let_def split: write_fault.splits)

text \<open>
  What a save over an existing record stores when the write goes through. If the record
  loads, its \<open>created_at\<close> is kept and \<open>updated_at\<close> is the save time. If it does not
  load, the first reading of the clock is stored as \<open>created_at\<close> and the failure is in
  the log as the error-level record of \<open>load_session\<close>. The files of other sessions stay
  as they are.
\<close>

theorem save_session_created_at:
  assumes "map_of dir sid = Some f"
  shows "raised (save_session dir clock None sid mdl msgs params prompt) = None
       \<and> (\<forall>d e. f = SessionJson d \<and> ChatSession d = Inr e \<longrightarrow>
            map_of (dir_after (save_session dir clock None sid mdl msgs params prompt)) sid
              = Some (SessionJson
                  \<lparr>session_id = sid, model_name = mdl, messages = msgs, parameters = params,
                   system_prompt = prompt, created_at = created_at d,
                   updated_at = snd clock\<rparr>))
       \<and> (fst (load_session dir sid) = None \<longrightarrow>
            map_of (dir_after (save_session dir clock None sid mdl msgs params prompt)) sid
              = Some (SessionJson
                  \<lparr>session_id = sid, model_name = mdl, messages = msgs, parameters = params,
                   system_prompt = prompt, created_at = fst clock,
                   updated_at = snd clock\<rparr>)
            \<and> (ERROR, ''Error loading session '')
                \<in> set (save_log (save_session dir clock None sid mdl msgs params prompt)))
       \<and> (\<forall>sid'. sid' \<noteq> sid \<longrightarrow>
            map_of (dir_after (save_session dir clock None sid mdl msgs params prompt)) sid'
              = map_of dir sid')"
proof (intro conjI allI impI)
  show "raised (save_session dir clock None sid mdl msgs params prompt) = None"
    by (cases "load_session dir sid"; cases "fst (load_session dir sid)")
      (simp_all add: save_session_def Let_def)
next
  fix d e assume "f = SessionJson d \<and> ChatSession d = Inr e"
  with assms have "fst (load_session dir sid) = Some d"
    by (auto intro: load_session_Some)
  with assms show "map_of (dir_after (save_session dir clock None sid mdl msgs params prompt)) sid
              = Some (SessionJson
                  \<lparr>session_id = sid, model_name = mdl, messages = msgs, parameters = params,
                   system_prompt = prompt, created_at = created_at d,
                   updated_at = snd clock\<rparr>)"
    by (cases "load_session dir sid") (simp add: save_session_def Let_def map_of_write_file)
next
  assume n: "fst (load_session dir sid) = None"
  with assms show "map_of (dir_after (save_session dir clock None sid mdl msgs params prompt)) sid
              = Some (SessionJson
                  \<lparr>session_id = sid, model_name = mdl, messages = msgs, parameters = params,
                   system_prompt = prompt, created_at = fst clock,
                   updated_at = snd clock\<rparr>)"
    by (cases "load_session dir sid") (simp add: save_session_def Let_def map_of_write_file)
  from load_session_None_log [OF assms n] assms n
  show "(ERROR, ''Error loading session '')
                \<in> set (save_log (save_session dir clock None sid mdl msgs params prompt))"
    by (cases "load_session dir sid") (simp add: save_session_def Let_def)
next
  fix sid' :: pystr assume "sid' \<noteq> sid"
  then show "map_of (dir_after (save_session dir clock None sid mdl msgs params prompt)) sid'
              = map_of dir sid'"
    by (cases "load_session dir sid"; cases "fst (load_session dir sid)")
      (simp_all add: save_session_def Let_def map_of_write_file_other)
qed

lemma mset_sort_reverse: "mset (sort_reverse k xs) = mset xs"
  by (simp add: sort_reverse_def)

lemma sorted_sort_reverse: "sorted (rev (map k (sort_reverse k xs)))"
  by (simp add: sort_reverse_def rev_map)

lemma sort_reverse_unique:
  assumes "mset xs = mset ys" and "inj_on k (set xs)" and "sorted (rev (map k ys))"
  shows "sort_reverse k xs = ys"
proof -
  have "sort_key k (rev xs) = rev ys"
    using assms by (intro sort_key_inj_key_eq) (simp_all add: rev_map)
  then show ?thesis by (simp add: sort_reverse_def)
qed

lemma mset_concat_map: "mset (concat (map f xs)) = (\<Sum>x\<in>#mset xs. mset (f x))"
  by (induction xs) simp_all

lemma session_ids_of_entries:
  "map entry_session_id (concat (map (session_entry dir) ids))
     = filter (\<lambda>sid. fst (load_session dir sid) \<noteq> None) ids"
  by (induction ids) (auto simp: session_entry_def split: option.splits)

lemma session_entry_fields:
  "e \<in> set (session_entry dir sid) \<Longrightarrow>
     \<exists>s. fst (load_session dir sid) = Some s \<and> e =
       \<lparr>entry_session_id = sid, entry_preview = get_session_preview s 50,
        entry_message_count = length (messages s), entry_model = model_name s,
        entry_created_at = created_at s, entry_updated_at = updated_at s\<rparr>"
  by (cases "fst (load_session dir sid)") (auto simp: session_entry_def)


lemma concat_entries_loadable:
  "concat (map (session_entry dir) ids)
     = concat (map (session_entry dir) (filter (\<lambda>sid. fst (load_session dir sid) \<noteq> None) ids))"
  by (induction ids) (auto simp: session_entry_def split: option.splits)

lemma set_list_sessions_detailed:
  "set (list_sessions_detailed dir) = (\<Union>sid \<in> fst ` set dir. set (session_entry dir sid))"
  by (simp add: list_sessions_detailed_def sort_reverse_def list_sessions_def)

lemma dt_key_less_neq: "dt_key a < dt_key b \<Longrightarrow> dt_key a \<noteq> dt_key b"
  by simp

lemma three_sessions_order:
  assumes ids: "mset (filter (\<lambda>sid. fst (load_session dir sid) \<noteq> None) (map fst dir))
                  = {#sid1, sid2, sid3#}"
    and l1: "fst (load_session dir sid1) = Some s1"
    and l2: "fst (load_session dir sid2) = Some s2"
    and l3: "fst (load_session dir sid3) = Some s3"
    and t12: "dt_key (updated_at s1) < dt_key (updated_at s2)"
    and t23: "dt_key (updated_at s2) < dt_key (updated_at s3)"
  shows "map entry_session_id (list_sessions_detailed dir) = [sid3, sid2, sid1]"
proof -
  let ?E = "concat (map (session_entry dir) (fst (list_sessions dir)))"
  let ?k = "\<lambda>x. dt_key (entry_updated_at x)"
  let ?ys = "session_entry dir sid3 @ session_entry dir sid2 @ session_entry dir sid1"
  have "mset ?E = (\<Sum>x\<in>#{#sid1, sid2, sid3#}. mset (session_entry dir x))"
    unfolding list_sessions_def fst_conv
    by (subst concat_entries_loadable) (simp only: mset_concat_map ids)
  then have m: "mset ?E = mset ?ys"
    by simp
  have t13: "dt_key (updated_at s1) < dt_key (updated_at s3)"
    using t12 t23 by (rule less_trans)
  have inj: "inj_on ?k (set ?E)"
    using t12 t23 t13 l1 l2 l3
    by (simp only: mset_eq_setD [OF m]) (auto simp: session_entry_def inj_on_def)
  have srt: "sorted (rev (map ?k ?ys))"
    using t12 t23 t13 l1 l2 l3 by (simp add: session_entry_def less_imp_le)
  have "list_sessions_detailed dir = ?ys"
    unfolding list_sessions_detailed_def using m inj srt by (rule sort_reverse_unique)
  then show ?thesis
    using l1 l2 l3 by (simp add: session_entry_def)
qed

text \<open>
  C8. \<open>list_sessions_detailed\<close> returns one entry for each stored session that loads,
  with the id of the file and the preview, message count, model and timestamps of the
  session; a session that does not load has no entry and the listing does not fail. The
  entries are in descending order of \<open>updated_at\<close>. When the sessions that load are
  three, updated at times \<open>T1 < T2 < T3\<close>, the result lists them in the order
  \<open>T3, T2, T1\<close>, whatever the order of the directory.
\<close>

theorem list_sessions_detailed_order:
  "mset (map entry_session_id (list_sessions_detailed dir))
     = mset (filter (\<lambda>sid. fst (load_session dir sid) \<noteq> None) (map fst dir))
   \<and> (\<forall>e \<in> set (list_sessions_detailed dir).
         \<exists>s. fst (load_session dir (entry_session_id e)) = Some s \<and> e =
           \<lparr>entry_session_id = entry_session_id e, entry_preview = get_session_preview s 50,
            entry_message_count = length (messages s), entry_model = model_name s,
            entry_created_at = created_at s, entry_updated_at = updated_at s\<rparr>)
   \<and> sorted (rev (map (\<lambda>e. dt_key (entry_updated_at e)) (list_sessions_detailed dir)))
   \<and> (\<forall>sid1 sid2 sid3 s1 s2 s3.
         mset (filter (\<lambda>sid. fst (load_session dir sid) \<noteq> None) (map fst dir))
           = {#sid1, sid2, sid3#}
         \<and> fst (load_session dir sid1) = Some s1
         \<and> fst (load_session dir sid2) = Some s2
         \<and> fst (load_session dir sid3) = Some s3
         \<and> dt_key (updated_at s1) < dt_key (updated_at s2)
         \<and> dt_key (updated_at s2) < dt_key (updated_at s3)
         \<longrightarrow> map entry_session_id (list_sessions_detailed dir) = [sid3, sid2, sid1])"
proof (intro conjI ballI allI impI)
  have "mset (map entry_session_id (list_sessions_detailed dir))
          = mset (map entry_session_id (concat (map (session_entry dir) (map fst dir))))"
    by (simp add: list_sessions_detailed_def list_sessions_def mset_sort_reverse)
  then show "mset (map entry_session_id (list_sessions_detailed dir))
     = mset (filter (\<lambda>sid. fst (load_session dir sid) \<noteq> None) (map fst dir))"
    by (simp only: session_ids_of_entries)
next
  fix e assume "e \<in> set (list_sessions_detailed dir)"
  then obtain sid where "e \<in> set (session_entry dir sid)"
    by (auto simp: set_list_sessions_detailed)
  from session_entry_fields [OF this]
  show "\<exists>s. fst (load_session dir (entry_session_id e)) = Some s \<and> e =
           \<lparr>entry_session_id = entry_session_id e, entry_preview = get_session_preview s 50,
            entry_message_count = length (messages s), entry_model = model_name s,
            entry_created_at = created_at s, entry_updated_at = updated_at s\<rparr>"
    by auto
next
  show "sorted (rev (map (\<lambda>e. dt_key (entry_updated_at e)) (list_sessions_detailed dir)))"
    by (simp add: list_sessions_detailed_def sorted_sort_reverse)
next
  fix sid1 sid2 sid3 s1 s2 s3
  assume "mset (filter (\<lambda>sid. fst (load_session dir sid) \<noteq> None) (map fst dir))
           = {#sid1, sid2, sid3#}
         \<and> fst (load_session dir sid1) = Some s1
         \<and> fst (load_session dir sid2) = Some s2
         \<and> fst (load_session dir sid3) = Some s3
         \<and> dt_key (updated_at s1) < dt_key (updated_at s2)
         \<and> dt_key (updated_at s2) < dt_key (updated_at s3)"
  then show "map entry_session_id (list_sessions_detailed dir) = [sid3, sid2, sid1]"
    by (elim conjE) (rule three_sessions_order, assumption+)
qed


theorem save_session_created_at_witness:
  "map_of [(lit ''s1'', SessionJson (sample_session (lit ''s1'') (sample_time 1) (sample_time 2)))]
     (lit ''s1'')
     = Some (SessionJson (sample_session (lit ''s1'') (sample_time 1) (sample_time 2)))
   \<and> ChatSession (sample_session (lit ''s1'') (sample_time 1) (sample_time 2))
       = Inr (sample_session (lit ''s1'') (sample_time 1) (sample_time 2))
   \<and> map_of (dir_after (save_session
        [(lit ''s1'', SessionJson (sample_session (lit ''s1'') (sample_time 1) (sample_time 2)))]
        (sample_time 8, sample_time 9) None (lit ''s1'') (lit ''mistral'') [] sample_params None))
        (lit ''s1'')
       = Some (SessionJson
           \<lparr>session_id = lit ''s1'', model_name = lit ''mistral'', messages = [],
            parameters = sample_params, system_prompt = None, created_at = sample_time 1,
            updated_at = sample_time 9\<rparr>)
   \<and> map_of [(lit ''s1'', Unparseable)] (lit ''s1'') = Some Unparseable
   \<and> fst (load_session [(lit ''s1'', Unparseable)] (lit ''s1'')) = None
   \<and> map_of (dir_after (save_session [(lit ''s1'', Unparseable)]
        (sample_time 8, sample_time 9) None (lit ''s1'') (lit ''mistral'') [] sample_params None))
        (lit ''s1'')
       = Some (SessionJson
           \<lparr>session_id = lit ''s1'', model_name = lit ''mistral'', messages = [],
            parameters = sample_params, system_prompt = None, created_at = sample_time 8,
            updated_at = sample_time 9\<rparr>)"
  using save_session_created_at [of
      "[(lit ''s1'', SessionJson (sample_session (lit ''s1'') (sample_time 1) (sample_time 2)))]"
      "lit ''s1''" "SessionJson (sample_session (lit ''s1'') (sample_time 1) (sample_time 2))"
      "(sample_time 8, sample_time 9)" "lit ''mistral''" "[]" sample_params None]
    save_session_created_at [of "[(lit ''s1'', Unparseable)]" "lit ''s1''" Unparseable
      "(sample_time 8, sample_time 9)" "lit ''mistral''" "[]" sample_params None]
  by (simp add: ChatSession_def ModelParameters_def check_ge_def check_le_def load_session_def)

text \<open>
  C4. Saving over an existing file that does not parse: reading the record fails, the
  save returns without raising and stores a fresh \<open>created_at\<close>. The log holds no
  warning: \<open>load_session\<close> has caught the exception and logged it with level \<open>ERROR\<close>,
  so the handler of \<open>save_session\<close> that logs the warning is not reached.
\<close>

theorem save_session_unreadable_no_warning:
  "fst (load_session [(lit ''s1'', Unparseable)] (lit ''s1'')) = None
   \<and> raised (save_session [(lit ''s1'', Unparseable)] (sample_time 8, sample_time 9) None
        (lit ''s1'') (lit ''mistral'') [] sample_params None) = None
   \<and> dir_after (save_session [(lit ''s1'', Unparseable)] (sample_time 8, sample_time 9) None
        (lit ''s1'') (lit ''mistral'') [] sample_params None)
       = [(lit ''s1'', SessionJson
            \<lparr>session_id = lit ''s1'', model_name = lit ''mistral'', messages = [],
             parameters = sample_params, system_prompt = None, created_at = sample_time 8,
             updated_at = sample_time 9\<rparr>)]
   \<and> WARNING \<notin> fst ` set (save_log (save_session [(lit ''s1'', Unparseable)]
        (sample_time 8, sample_time 9) None (lit ''s1'') (lit ''mistral'') [] sample_params None))
   \<and> ERROR \<in> fst ` set (save_log (save_session [(lit ''s1'', Unparseable)]
        (sample_time 8, sample_time 9) None (lit ''s1'') (lit ''mistral'') [] sample_params None))"
  by (simp add: save_session_def load_session_def Let_def)

theorem list_sessions_detailed_order_witness:
  "fst (load_session
     [(lit ''b'', SessionJson (sample_session (lit ''b'') (sample_time 1) (sample_time 5))),
      (lit ''bad'', Unparseable),
      (lit ''c'', SessionJson (sample_session (lit ''c'') (sample_time 2) (sample_time 6))),
      (lit ''a'', SessionJson (sample_session (lit ''a'') (sample_time 3) (sample_time 4)))]
     (lit ''bad'')) = None
   \<and> dt_key (sample_time 4) < dt_key (sample_time 5)
   \<and> dt_key (sample_time 5) < dt_key (sample_time 6)
   \<and> map entry_session_id (list_sessions_detailed
     [(lit ''b'', SessionJson (sample_session (lit ''b'') (sample_time 1) (sample_time 5))),
      (lit ''bad'', Unparseable),
      (lit ''c'', SessionJson (sample_session (lit ''c'') (sample_time 2) (sample_time 6))),
      (lit ''a'', SessionJson (sample_session (lit ''a'') (sample_time 3) (sample_time 4)))])
     = [lit ''c'', lit ''b'', lit ''a'']"
  using list_sessions_detailed_order [of
     "[(lit ''b'', SessionJson (sample_session (lit ''b'') (sample_time 1) (sample_time 5))),
      (lit ''bad'', Unparseable),
      (lit ''c'', SessionJson (sample_session (lit ''c'') (sample_time 2) (sample_time 6))),
      (lit ''a'', SessionJson (sample_session (lit ''a'') (sample_time 3) (sample_time 4)))]",
     THEN conjunct2, THEN conjunct2, THEN conjunct2, rule_format,
     of "lit ''a''" "lit ''b''" "lit ''c''"
        "sample_session (lit ''a'') (sample_time 3) (sample_time 4)"
        "sample_session (lit ''b'') (sample_time 1) (sample_time 5)"
        "sample_session (lit ''c'') (sample_time 2) (sample_time 6)"]
  by (simp add: load_session_def ChatSession_def ModelParameters_def check_ge_def check_le_def
        dt_key_def)

end
